theory Spec2Isabelle
  imports Main "HOL-Library.Word" "HOL-Library.Sublist"
begin

section \<open>JavaScript values and strings\<close>

text \<open>
  The chat page (\<^verbatim>\<open>miniprogram/pages/chat/index.js\<close>) is a WeChat mini-program page
  written in JavaScript. A JavaScript string is a sequence of UTF-16 code units; all the
  string literals of the page except the failure text are ASCII.
\<close>

type_synonym jsstring = "16 word list"

definition js :: "string \<Rightarrow> jsstring" where
  "js s = map of_char s"

text \<open>
  The values that can reach the page from storage or from a parsed response body.
  \<open>JNum n\<close> stands for the integral number \<open>n\<close>; an object is given by its own
  properties, the first binding of a key being the effective one.
\<close>

datatype jsval =
    JUndefined
  | JNull
  | JBool bool
  | JNum int
  | JStr jsstring
  | JObj "(jsstring \<times> jsval) list"

datatype js_error = TypeError | StorageError

text \<open>The truthiness that \<^verbatim>\<open>!user_id\<close> tests.\<close>

fun truthy :: "jsval \<Rightarrow> bool" where
  "truthy JUndefined = False"
| "truthy JNull = False"
| "truthy (JBool b) = b"
| "truthy (JNum n) = (n \<noteq> 0)"
| "truthy (JStr s) = (s \<noteq> [])"
| "truthy (JObj kvs) = True"

text \<open>
  \<^verbatim>\<open>String.prototype.trim\<close> strips the ECMAScript WhiteSpace and LineTerminator
  code points from both ends: TAB, LF, VT, FF, CR, SPACE, NBSP, U+1680, U+2000 to U+200A,
  U+2028, U+2029, U+202F, U+205F, U+3000 and U+FEFF. All of them are single code units.
\<close>

definition is_ws :: "16 word \<Rightarrow> bool" where
  "is_ws c = (c \<in> {0x09, 0x0A, 0x0B, 0x0C, 0x0D, 0x20, 0xA0, 0x1680,
                    0x2028, 0x2029, 0x202F, 0x205F, 0x3000, 0xFEFF}
              \<or> (0x2000 \<le> c \<and> c \<le> 0x200A))"

definition trim :: "jsstring \<Rightarrow> jsstring" where
  "trim s = rev (dropWhile is_ws (rev (dropWhile is_ws s)))"

text \<open>
  The member access \<^verbatim>\<open>res.data.answer\<close>: reading a property of \<^verbatim>\<open>undefined\<close> or
  \<^verbatim>\<open>null\<close> throws a TypeError; a primitive has no property \<^verbatim>\<open>answer\<close>; an object
  yields the property's value, or \<^verbatim>\<open>undefined\<close> when it has none.
\<close>

fun answer_of :: "jsval \<Rightarrow> js_error + jsval" where
  "answer_of JUndefined = Inl TypeError"
| "answer_of JNull = Inl TypeError"
| "answer_of (JObj kvs) =
     Inr (case map_of kvs (js ''answer'') of None \<Rightarrow> JUndefined | Some v \<Rightarrow> v)"
| "answer_of v = Inr JUndefined"

section \<open>The page's data and the platform\<close>

record message =
  role :: jsstring
  content :: jsval

text \<open>The \<^verbatim>\<open>data\<close> object of the page.\<close>

record page_data =
  user_id :: jsval
  session_id :: jsstring
  messages :: "message list"
  input :: jsstring

definition init_data :: page_data where
  "init_data = \<lparr>user_id = JStr [], session_id = [], messages = [], input = []\<rparr>"

text \<open>The object handed to \<^verbatim>\<open>wx.request\<close>, without its two callbacks.\<close>

record request_data =
  question :: jsstring
  data_user_id :: jsval
  data_session_id :: jsstring

record request =
  url :: jsstring
  http_method :: jsstring
  req_data :: request_data

text \<open>The argument \<^verbatim>\<open>res\<close> of the success callback.\<close>

record response =
  statusCode :: nat
  res_data :: jsval

text \<open>
  The platform object \<^verbatim>\<open>wx\<close> as far as the page uses it: the durable key-value
  storage, whether its synchronous read and write currently fail, the log of the writes
  performed, and the log of the requests issued.
\<close>

record wx_env =
  storage :: "jsstring \<rightharpoonup> jsval"
  get_fails :: bool
  set_fails :: bool
  writes :: "(jsstring \<times> jsval) list"
  requests :: "request list"

record app =
  data :: page_data
  wx :: wx_env

text \<open>
  \<^verbatim>\<open>wx.getStorageSync(key)\<close> returns the stored value, or the empty string when the
  key is absent; \<^verbatim>\<open>wx.setStorageSync(key, value)\<close> stores the value. The synchronous
  storage calls report a failure by throwing, and a failed write stores nothing.
\<close>

definition getStorageSync :: "wx_env \<Rightarrow> jsstring \<Rightarrow> js_error + jsval" where
  "getStorageSync w k =
     (if get_fails w then Inl StorageError
      else Inr (case storage w k of None \<Rightarrow> JStr [] | Some v \<Rightarrow> v))"

definition setStorageSync :: "wx_env \<Rightarrow> jsstring \<Rightarrow> jsval \<Rightarrow> js_error + wx_env" where
  "setStorageSync w k v =
     (if set_fails w then Inl StorageError
      else Inr (w\<lparr>storage := (storage w)(k \<mapsto> v), writes := writes w @ [(k, v)]\<rparr>))"

text \<open>\<^verbatim>\<open>wx.request(r)\<close> starts the request and returns at once.\<close>

definition wx_request :: "wx_env \<Rightarrow> request \<Rightarrow> wx_env" where
  "wx_request w r = w\<lparr>requests := requests w @ [r]\<rparr>"

section \<open>The page's handlers\<close>

text \<open>
  A handler that can throw returns \<open>Inl\<close> the error; every throw of the page happens
  before the handler has changed anything, so \<open>Inl\<close> also says that the state is as it
  was. \<open>rnd\<close> is the value of \<^verbatim>\<open>Math.random().toString(36).slice(2)\<close> and \<open>uuid\<close> the
  value of \<^verbatim>\<open>uuidv4()\<close>, a function of \<^verbatim>\<open>utils/uuid\<close> whose result is taken as given.
  \<^verbatim>\<open>this.setData(o)\<close> assigns the fields of \<open>o\<close> to \<^verbatim>\<open>this.data\<close> at once.
\<close>

definition onLoad :: "jsstring \<Rightarrow> jsstring \<Rightarrow> app \<Rightarrow> js_error + app" where
  "onLoad rnd uuid a =
     (case getStorageSync (wx a) (js ''user_id'') of
        Inl e \<Rightarrow> Inl e
      | Inr stored \<Rightarrow>
          (if \<not> truthy stored then
             (let uid = JStr (js ''user_'' @ rnd) in
              case setStorageSync (wx a) (js ''user_id'') uid of
                Inl e \<Rightarrow> Inl e
              | Inr w' \<Rightarrow>
                  Inr (a\<lparr>wx := w', data := (data a)\<lparr>user_id := uid, session_id := uuid\<rparr>\<rparr>))
           else Inr (a\<lparr>data := (data a)\<lparr>user_id := stored, session_id := uuid\<rparr>\<rparr>)))"

definition onInput :: "jsstring \<Rightarrow> app \<Rightarrow> app" where
  "onInput v a = a\<lparr>data := (data a)\<lparr>input := v\<rparr>\<rparr>"

definition failure_text :: jsstring where
  "failure_text =
     [0x7F51, 0x7EDC, 0x9519, 0x8BEF, 0xFF0C, 0x8BF7, 0x7A0D, 0x540E, 0x91CD, 0x8BD5, 0x3002]"

definition sendMsg :: "app \<Rightarrow> app" where
  "sendMsg a =
     (let d = data a in
      if trim (input d) = [] then a
      else a\<lparr>data := d\<lparr>messages := messages d @ [\<lparr>role = js ''user'', content = JStr (input d)\<rparr>],
                        input := []\<rparr>,
             wx := wx_request (wx a)
                     \<lparr>url = js ''http://localhost:8000/chat/qa'',
                      http_method = js ''POST'',
                      req_data = \<lparr>question = input d, data_user_id = user_id d,
                                  data_session_id = session_id d\<rparr>\<rparr>\<rparr>)"

text \<open>The two callbacks that \<^verbatim>\<open>sendMsg\<close> hands to \<^verbatim>\<open>wx.request\<close>.\<close>

definition success :: "response \<Rightarrow> app \<Rightarrow> js_error + app" where
  "success res a =
     (case answer_of (res_data res) of
        Inl e \<Rightarrow> Inl e
      | Inr answer \<Rightarrow>
          Inr (a\<lparr>data := (data a)\<lparr>messages := messages (data a) @
                                   [\<lparr>role = js ''assistant'', content = answer\<rparr>]\<rparr>\<rparr>))"

definition fail :: "app \<Rightarrow> app" where
  "fail a =
     a\<lparr>data := (data a)\<lparr>messages := messages (data a) @
                          [\<lparr>role = js ''assistant'', content = JStr failure_text\<rparr>]\<rparr>\<rparr>"

section \<open>How the platform completes a request\<close>

text \<open>
  A request ends in one of three ways. By the platform's contract for \<^verbatim>\<open>wx.request\<close>,
  \<^verbatim>\<open>fail\<close> is called when no response arrived (a network error or a timeout) and
  \<^verbatim>\<open>success\<close> is called whenever the server's response was received, whatever its
  status code; the page's callbacks are the only place where a status code could be
  examined. The callbacks are called later, from the event loop, never from within
  \<^verbatim>\<open>sendMsg\<close>.
\<close>

datatype outcome = NetworkError | Timeout | HttpResponse response

fun wx_request_complete :: "outcome \<Rightarrow> app \<Rightarrow> js_error + app" where
  "wx_request_complete (HttpResponse res) a = success res a"
| "wx_request_complete NetworkError a = Inr (fail a)"
| "wx_request_complete Timeout a = Inr (fail a)"

fun is_transport_failure :: "outcome \<Rightarrow> bool" where
  "is_transport_failure (HttpResponse res) = False"
| "is_transport_failure NetworkError = True"
| "is_transport_failure Timeout = True"

text \<open>
  The events of the page's life. An error thrown by a handler is reported by the platform
  and the page lives on with the state it had.
\<close>

datatype event =
    OnLoad jsstring jsstring
  | OnInput jsstring
  | SendMsg
  | Complete outcome

fun step :: "event \<Rightarrow> app \<Rightarrow> app" where
  "step (OnLoad rnd uuid) a = (case onLoad rnd uuid a of Inl e \<Rightarrow> a | Inr a' \<Rightarrow> a')"
| "step (OnInput v) a = onInput v a"
| "step SendMsg a = sendMsg a"
| "step (Complete oc) a = (case wx_request_complete oc a of Inl e \<Rightarrow> a | Inr a' \<Rightarrow> a')"

definition run :: "event list \<Rightarrow> app \<Rightarrow> app" where
  "run evs a = fold step evs a"

section \<open>Concrete states and responses\<close>

text \<open>The page right after its creation, on a device whose storage is empty and works.\<close>

definition fresh_app :: app where
  "fresh_app = \<lparr>data = init_data,
                 wx = \<lparr>storage = Map.empty, get_fails = False, set_fails = False,
                       writes = [], requests = []\<rparr>\<rparr>"

text \<open>A question about the main component of pearls, and its answer (calcium carbonate).\<close>

definition pearl_question :: jsstring where
  "pearl_question =
     [0x73CD, 0x73E0, 0x7684, 0x4E3B, 0x8981, 0x6210, 0x5206, 0x662F, 0x4EC0, 0x4E48, 0xFF1F]"

definition pearl_answer :: jsstring where
  "pearl_answer = [0x78B3, 0x9178, 0x9499]"

text \<open>The response of a backend whose handler raised, and a response whose body is \<^verbatim>\<open>null\<close>.\<close>

definition error_response :: response where
  "error_response =
     \<lparr>statusCode = 500,
      res_data = JObj [(js ''detail'', JStr (js ''Internal Server Error''))]\<rparr>"

definition null_response :: response where
  "null_response = \<lparr>statusCode = 200, res_data = JNull\<rparr>"

text \<open>A device whose storage cannot be read, and one whose storage cannot be written.\<close>

definition broken_read_app :: app where
  "broken_read_app = fresh_app\<lparr>wx := (wx fresh_app)\<lparr>get_fails := True\<rparr>\<rparr>"

definition broken_write_app :: app where
  "broken_write_app = fresh_app\<lparr>wx := (wx fresh_app)\<lparr>set_fails := True\<rparr>\<rparr>"

section \<open>Trimming\<close>

lemma trim_empty_iff: "trim s = [] \<longleftrightarrow> (\<forall>c\<in>set s. is_ws c)"
proof
  assume "trim s = []"
  then have "dropWhile is_ws (rev (dropWhile is_ws s)) = []"
    by (simp add: trim_def)
  then have all: "\<forall>c\<in>set (dropWhile is_ws s). is_ws c"
    by simp
  have "dropWhile is_ws s = []"
  proof (rule ccontr)
    assume ne: "dropWhile is_ws s \<noteq> []"
    then have "\<not> is_ws (hd (dropWhile is_ws s))"
      by (rule hd_dropWhile)
    moreover from ne have "hd (dropWhile is_ws s) \<in> set (dropWhile is_ws s)"
      by simp
    ultimately show False
      using all by blast
  qed
  then show "\<forall>c\<in>set s. is_ws c"
    by simp
next
  assume "\<forall>c\<in>set s. is_ws c"
  then show "trim s = []"
    by (auto simp: trim_def dest: set_dropWhileD)
qed

section \<open>What each handler does to the page\<close>

lemmas eval_defs = fresh_app_def init_data_def onInput_def

lemma sendMsg_nonblank:
  "trim (input (data a)) \<noteq> [] \<Longrightarrow>
   sendMsg a =
     a\<lparr>data := (data a)\<lparr>messages := messages (data a) @
                            [\<lparr>role = js ''user'', content = JStr (input (data a))\<rparr>],
                        input := []\<rparr>,
       wx := wx_request (wx a)
               \<lparr>url = js ''http://localhost:8000/chat/qa'', http_method = js ''POST'',
                req_data = \<lparr>question = input (data a), data_user_id = user_id (data a),
                            data_session_id = session_id (data a)\<rparr>\<rparr>\<rparr>"
  by (simp add: sendMsg_def Let_def)

lemma sendMsg_blank: "trim (input (data a)) = [] \<Longrightarrow> sendMsg a = a"
  by (simp add: sendMsg_def Let_def)

lemma onLoad_messages: "onLoad rnd uuid a = Inr a' \<Longrightarrow> messages (data a') = messages (data a)"
  by (auto simp: onLoad_def Let_def split: sum.splits if_splits)

lemma onLoad_requests: "onLoad rnd uuid a = Inr a' \<Longrightarrow> requests (wx a') = requests (wx a)"
  by (auto simp: onLoad_def Let_def setStorageSync_def split: sum.splits if_splits)

lemma success_messages:
  "success res a = Inr a' \<Longrightarrow> \<exists>m. messages (data a') = messages (data a) @ [m]"
  by (auto simp: success_def split: sum.splits)

lemma success_wx: "success res a = Inr a' \<Longrightarrow> wx a' = wx a"
  by (auto simp: success_def split: sum.splits)

lemma fail_wx: "wx (fail a) = wx a"
  by (simp add: fail_def)

lemma step_messages:
  "messages (data (step ev a)) = messages (data a) \<or>
   (\<exists>m. messages (data (step ev a)) = messages (data a) @ [m])"
proof (cases ev)
  case (OnLoad rnd uuid)
  then show ?thesis
    by (auto split: sum.splits dest: onLoad_messages)
next
  case (OnInput v)
  then show ?thesis
    by (simp add: onInput_def)
next
  case SendMsg
  then show ?thesis
    by (cases "trim (input (data a)) = []") (simp_all add: sendMsg_blank sendMsg_nonblank)
next
  case (Complete oc)
  then show ?thesis
    by (cases oc) (auto simp: fail_def split: sum.splits dest: success_messages)
qed

lemma step_prefix: "prefix (messages (data a)) (messages (data (step ev a)))"
  using step_messages [of ev a] by auto

lemma run_Cons: "run (ev # evs) a = run evs (step ev a)"
  by (simp add: run_def)

lemma run_append: "run (evs @ evs') a = run evs' (run evs a)"
  by (simp add: run_def)

lemma run_prefix: "prefix (messages (data a)) (messages (data (run evs a)))"
proof (induction evs arbitrary: a)
  case Nil
  then show ?case by (simp add: run_def)
next
  case (Cons ev evs)
  have "prefix (messages (data a)) (messages (data (step ev a)))"
    by (rule step_prefix)
  also have "prefix (messages (data (step ev a))) (messages (data (run evs (step ev a))))"
    by (rule Cons.IH)
  finally show ?case
    by (simp add: run_Cons)
qed

section \<open>Sending a message\<close>

text \<open>
  C1. When the draft, trimmed of whitespace, is not empty, \<^verbatim>\<open>sendMsg\<close> appends exactly
  one message with role \<^verbatim>\<open>user\<close> and the untrimmed draft as content to the end of
  \<open>messages\<close> and sets \<open>input\<close> to the empty string. This is the page's data when
  \<^verbatim>\<open>sendMsg\<close> returns: the request has only been issued, and its completion is a later
  event of its own.
\<close>

theorem sendMsg_appends_user_message:
  assumes "trim (input (data a)) \<noteq> []"
  shows "data (sendMsg a) =
           (data a)\<lparr>messages := messages (data a) @
                        [\<lparr>role = js ''user'', content = JStr (input (data a))\<rparr>],
                     input := []\<rparr>"
  using assms by (simp add: sendMsg_nonblank)

theorem sendMsg_appends_user_message_witness:
  "trim (input (data (onInput (js ''hi'') fresh_app))) \<noteq> [] \<and>
   data (sendMsg (onInput (js ''hi'') fresh_app)) =
     \<lparr>user_id = JStr [], session_id = [],
      messages = [\<lparr>role = js ''user'', content = JStr (js ''hi'')\<rparr>], input = []\<rparr>"
proof -
  have h: "trim (input (data (onInput (js ''hi'') fresh_app))) \<noteq> []"
    by (simp add: eval_defs trim_def is_ws_def js_def)
  show ?thesis
    using h sendMsg_appends_user_message [OF h] by (simp add: eval_defs)
qed

text \<open>
  C2. When the draft consists of whitespace only (the empty draft included),
  \<^verbatim>\<open>sendMsg\<close> changes nothing: \<open>messages\<close> and \<open>input\<close> are as they were and no
  request is issued.
\<close>

theorem sendMsg_blank_noop:
  assumes "\<forall>c\<in>set (input (data a)). is_ws c"
  shows "sendMsg a = a"
  using assms by (simp add: sendMsg_blank trim_empty_iff)

theorem sendMsg_blank_noop_witness:
  "is_ws 0x20 \<and> is_ws 0x09 \<and> is_ws 0x3000 \<and>
   input (data (onInput [0x20, 0x09, 0x3000] fresh_app)) = [0x20, 0x09, 0x3000] \<and>
   sendMsg (onInput [0x20, 0x09, 0x3000] fresh_app) = onInput [0x20, 0x09, 0x3000] fresh_app"
proof -
  have h: "\<forall>c\<in>set (input (data (onInput [0x20, 0x09, 0x3000] fresh_app))). is_ws c"
    by (simp add: eval_defs is_ws_def)
  show ?thesis
    using h sendMsg_blank_noop [OF h] by (simp add: eval_defs)
qed

section \<open>The reply\<close>

text \<open>
  C3. When the response body is an object whose \<^verbatim>\<open>answer\<close> is \<open>X\<close>, the success
  callback appends exactly one message with role \<^verbatim>\<open>assistant\<close> and content \<open>X\<close>;
  whatever happens between a send and its response, that message stands after the user
  message of the send.
\<close>

theorem success_appends_answer:
  assumes "trim (input (data a)) \<noteq> []"
    and "res_data res = JObj kvs"
    and "map_of kvs (js ''answer'') = Some X"
  shows "success res b =
           Inr (b\<lparr>data := (data b)\<lparr>messages := messages (data b) @
                                     [\<lparr>role = js ''assistant'', content = X\<rparr>]\<rparr>\<rparr>)
         \<and> (\<exists>ms. messages (data (run (SendMsg # evs @ [Complete (HttpResponse res)]) a)) =
                   messages (data a) @
                   [\<lparr>role = js ''user'', content = JStr (input (data a))\<rparr>] @ ms @
                   [\<lparr>role = js ''assistant'', content = X\<rparr>])"
proof
  show s: "success res b =
           Inr (b\<lparr>data := (data b)\<lparr>messages := messages (data b) @
                                     [\<lparr>role = js ''assistant'', content = X\<rparr>]\<rparr>\<rparr>)" for b
    using assms(2,3) by (simp add: success_def)
  have "prefix (messages (data (sendMsg a))) (messages (data (run evs (sendMsg a))))"
    by (rule run_prefix)
  then obtain ms where ms: "messages (data (run evs (sendMsg a))) = messages (data (sendMsg a)) @ ms"
    by (auto simp: prefix_def)
  have "messages (data (run (SendMsg # evs @ [Complete (HttpResponse res)]) a)) =
        messages (data (run evs (sendMsg a))) @ [\<lparr>role = js ''assistant'', content = X\<rparr>]"
    by (simp add: run_Cons run_append run_def s)
  also have "\<dots> = messages (data a) @
                   [\<lparr>role = js ''user'', content = JStr (input (data a))\<rparr>] @ ms @
                   [\<lparr>role = js ''assistant'', content = X\<rparr>]"
  proof -
    have "messages (data (sendMsg a)) =
          messages (data a) @ [\<lparr>role = js ''user'', content = JStr (input (data a))\<rparr>]"
      using assms(1) by (simp add: sendMsg_nonblank)
    then show ?thesis
      by (simp add: ms)
  qed
  finally show "\<exists>ms. messages (data (run (SendMsg # evs @ [Complete (HttpResponse res)]) a)) =
                   messages (data a) @
                   [\<lparr>role = js ''user'', content = JStr (input (data a))\<rparr>] @ ms @
                   [\<lparr>role = js ''assistant'', content = X\<rparr>]"
    by blast
qed

theorem success_appends_answer_witness:
  "trim (input (data (onInput pearl_question fresh_app))) \<noteq> [] \<and>
   messages (data (run [SendMsg, Complete (HttpResponse
        \<lparr>statusCode = 200, res_data = JObj [(js ''answer'', JStr pearl_answer)]\<rparr>)]
      (onInput pearl_question fresh_app))) =
     [\<lparr>role = js ''user'', content = JStr pearl_question\<rparr>,
      \<lparr>role = js ''assistant'', content = JStr pearl_answer\<rparr>]"
proof -
  let ?a = "onInput pearl_question fresh_app"
  let ?res = "\<lparr>statusCode = 200, res_data = JObj [(js ''answer'', JStr pearl_answer)]\<rparr>"
  have h: "trim (input (data ?a)) \<noteq> []"
    by (simp add: eval_defs trim_def is_ws_def pearl_question_def)
  have r: "res_data ?res = JObj [(js ''answer'', JStr pearl_answer)]"
    by simp
  have m: "map_of [(js ''answer'', JStr pearl_answer)] (js ''answer'') = Some (JStr pearl_answer)"
    by simp
  from success_appends_answer [OF h r m, of fresh_app "[]"]
  obtain ms where
    "messages (data (run [SendMsg, Complete (HttpResponse ?res)] ?a)) =
       messages (data ?a) @ [\<lparr>role = js ''user'', content = JStr (input (data ?a))\<rparr>] @ ms @
       [\<lparr>role = js ''assistant'', content = JStr pearl_answer\<rparr>]"
    by auto
  moreover have "length (messages (data (run [SendMsg, Complete (HttpResponse ?res)] ?a))) = 2"
    using h by (simp add: run_def sendMsg_nonblank success_def eval_defs)
  ultimately show ?thesis
    using h by (simp add: eval_defs)
qed

text \<open>
  C4, as the page has it. A network error and a timeout both end in the \<^verbatim>\<open>fail\<close>
  callback, which appends one message with role \<^verbatim>\<open>assistant\<close> and the fixed failure
  text. A response that arrived goes to the \<^verbatim>\<open>success\<close> callback, which never reads the
  status code: a response with a non-success status is handled like any other response
  with the same body.
\<close>

theorem failure_cases_uniform:
  "wx_request_complete NetworkError a =
     Inr (a\<lparr>data := (data a)\<lparr>messages := messages (data a) @
               [\<lparr>role = js ''assistant'', content = JStr failure_text\<rparr>]\<rparr>\<rparr>)
   \<and> wx_request_complete Timeout a = wx_request_complete NetworkError a
   \<and> wx_request_complete (HttpResponse res) a = success res a
   \<and> success (res\<lparr>statusCode := n\<rparr>) a = success res a"
  by (simp add: fail_def success_def)

theorem failure_cases_uniform_witness:
  "step (Complete Timeout) fresh_app = step (Complete NetworkError) fresh_app
   \<and> messages (data (step (Complete NetworkError) fresh_app)) =
       [\<lparr>role = js ''assistant'', content = JStr failure_text\<rparr>]"
  using failure_cases_uniform [of fresh_app]
  by (simp add: eval_defs)

text \<open>
  Against C4 as it is stated: the status 500 response of a backend whose handler raised is
  answered with a message whose content is \<^verbatim>\<open>undefined\<close>, not with the failure text.
\<close>

theorem non_success_status_counterexample:
  "messages (data (step (Complete (HttpResponse error_response)) fresh_app)) =
     [\<lparr>role = js ''assistant'', content = JUndefined\<rparr>]
   \<and> messages (data (step (Complete (HttpResponse error_response)) fresh_app)) \<noteq>
     [\<lparr>role = js ''assistant'', content = JStr failure_text\<rparr>]"
  by (simp add: error_response_def success_def fresh_app_def init_data_def js_def)

text \<open>
  C5. When the request fails in transport (a network error or a timeout), the completion
  throws nothing: it returns normally, with one message of role \<^verbatim>\<open>assistant\<close> and the
  fixed failure text appended to \<open>messages\<close>.
\<close>

theorem transport_failure_never_throws:
  assumes "is_transport_failure oc"
  shows "wx_request_complete oc a =
           Inr (a\<lparr>data := (data a)\<lparr>messages := messages (data a) @
                     [\<lparr>role = js ''assistant'', content = JStr failure_text\<rparr>]\<rparr>\<rparr>)"
  using assms by (cases oc) (simp_all add: fail_def)

theorem transport_failure_never_throws_witness:
  "is_transport_failure Timeout \<and>
   wx_request_complete Timeout fresh_app =
     Inr (fresh_app\<lparr>data := init_data\<lparr>messages :=
            [\<lparr>role = js ''assistant'', content = JStr failure_text\<rparr>]\<rparr>\<rparr>)"
proof -
  have h: "is_transport_failure Timeout"
    by simp
  show ?thesis
    using h transport_failure_never_throws [OF h, of fresh_app]
    by (simp add: eval_defs)
qed

text \<open>
  C10, as the page has it. When the response body is neither \<^verbatim>\<open>null\<close> nor
  \<^verbatim>\<open>undefined\<close> and has no \<^verbatim>\<open>answer\<close> that is a string, the success callback
  still appends one message with role \<^verbatim>\<open>assistant\<close>; its content is the value of
  \<^verbatim>\<open>res.data.answer\<close>, which is \<^verbatim>\<open>undefined\<close> when the body has no such property.
  The response is not handled as a failure and the failure text is not appended.
\<close>

theorem success_without_answer:
  assumes "res_data res \<noteq> JUndefined" and "res_data res \<noteq> JNull"
    and "\<forall>s. answer_of (res_data res) \<noteq> Inr (JStr s)"
  shows "\<exists>v. answer_of (res_data res) = Inr v
           \<and> wx_request_complete (HttpResponse res) a =
               Inr (a\<lparr>data := (data a)\<lparr>messages := messages (data a) @
                         [\<lparr>role = js ''assistant'', content = v\<rparr>]\<rparr>\<rparr>)
           \<and> v \<noteq> JStr failure_text
           \<and> ((\<forall>kvs. res_data res = JObj kvs \<longrightarrow> map_of kvs (js ''answer'') = None)
                \<longrightarrow> v = JUndefined)"
proof -
  obtain v where v: "answer_of (res_data res) = Inr v"
    using assms(1,2) by (cases "res_data res") auto
  have "v \<noteq> JStr failure_text"
    using assms(3) v by auto
  moreover have "v = JUndefined"
    if "\<forall>kvs. res_data res = JObj kvs \<longrightarrow> map_of kvs (js ''answer'') = None"
    using that v by (cases "res_data res") auto
  ultimately show ?thesis
    using v by (simp add: success_def)
qed

theorem success_without_answer_witness:
  "res_data error_response \<noteq> JUndefined \<and> res_data error_response \<noteq> JNull \<and>
   answer_of (res_data error_response) = Inr JUndefined \<and>
   wx_request_complete (HttpResponse error_response) fresh_app =
     Inr (fresh_app\<lparr>data := init_data\<lparr>messages :=
            [\<lparr>role = js ''assistant'', content = JUndefined\<rparr>]\<rparr>\<rparr>)"
proof -
  have h1: "res_data error_response \<noteq> JUndefined" and h2: "res_data error_response \<noteq> JNull"
    by (simp_all add: error_response_def)
  have h3: "\<forall>s. answer_of (res_data error_response) \<noteq> Inr (JStr s)"
    by (simp add: error_response_def js_def)
  have v: "answer_of (res_data error_response) = Inr JUndefined"
    by (simp add: error_response_def js_def)
  show ?thesis
    using h1 h2 v success_without_answer [OF h1 h2 h3, of fresh_app]
    by (auto simp: eval_defs)
qed

text \<open>
  Against C10 as it is stated: when the body is \<^verbatim>\<open>null\<close>, reading
  \<^verbatim>\<open>res.data.answer\<close> throws a TypeError and no message is appended at all.
\<close>

theorem null_body_counterexample:
  "success null_response fresh_app = Inl TypeError
   \<and> messages (data (step (Complete (HttpResponse null_response)) fresh_app)) = []"
  by (simp add: null_response_def success_def fresh_app_def init_data_def)

section \<open>Requests\<close>

lemma step_requests:
  "requests (wx (step ev a)) = requests (wx a) \<or>
   (ev = SendMsg \<and> (\<exists>r. requests (wx (step ev a)) = requests (wx a) @ [r]))"
proof (cases ev)
  case (OnLoad rnd uuid)
  then show ?thesis
    by (auto split: sum.splits dest: onLoad_requests)
next
  case (OnInput v)
  then show ?thesis
    by (simp add: onInput_def)
next
  case SendMsg
  then show ?thesis
    by (cases "trim (input (data a)) = []")
       (simp_all add: sendMsg_blank sendMsg_nonblank wx_request_def)
next
  case (Complete oc)
  then show ?thesis
    by (cases oc) (auto simp: fail_wx split: sum.splits dest: success_wx)
qed

lemma complete_requests: "requests (wx (step (Complete oc) a)) = requests (wx a)"
  using step_requests [of "Complete oc" a] by simp

lemma run_requests:
  "length (requests (wx (run evs a))) \<le>
   length (requests (wx a)) + length (filter (\<lambda>ev. ev = SendMsg) evs)"
proof (induction evs arbitrary: a)
  case Nil
  then show ?case by (simp add: run_def)
next
  case (Cons ev evs)
  have "length (requests (wx (run evs (step ev a)))) \<le>
        length (requests (wx (step ev a))) + length (filter (\<lambda>ev. ev = SendMsg) evs)"
    by (rule Cons.IH)
  moreover have "length (requests (wx (step ev a))) \<le>
        length (requests (wx a)) + (if ev = SendMsg then 1 else 0)"
    using step_requests [of ev a] by auto
  ultimately show ?case
    by (cases "ev = SendMsg") (simp_all add: run_Cons del: step.simps)
qed

text \<open>
  C8. A \<^verbatim>\<open>sendMsg\<close> with a draft that is not blank issues exactly one request, a POST
  to the chat endpoint whose body holds the draft as it was before clearing, the user id
  and the session id. No completion of a request, whatever its outcome, issues a request,
  and over any run the page issues at most one request per \<^verbatim>\<open>sendMsg\<close>: nothing is
  retried.
\<close>

theorem sendMsg_issues_one_request:
  assumes "trim (input (data a)) \<noteq> []"
  shows "requests (wx (sendMsg a)) =
           requests (wx a) @
           [\<lparr>url = js ''http://localhost:8000/chat/qa'', http_method = js ''POST'',
             req_data = \<lparr>question = input (data a), data_user_id = user_id (data a),
                         data_session_id = session_id (data a)\<rparr>\<rparr>]
         \<and> requests (wx (step (Complete oc) b)) = requests (wx b)
         \<and> length (requests (wx (run evs b))) \<le>
             length (requests (wx b)) + length (filter (\<lambda>ev. ev = SendMsg) evs)"
  using assms complete_requests [of oc b] run_requests [of evs b]
  by (simp add: sendMsg_nonblank wx_request_def)

theorem sendMsg_issues_one_request_witness:
  "trim (input (data (onInput pearl_question fresh_app))) \<noteq> [] \<and>
   requests (wx (sendMsg (onInput pearl_question fresh_app))) =
     [\<lparr>url = js ''http://localhost:8000/chat/qa'', http_method = js ''POST'',
       req_data = \<lparr>question = pearl_question, data_user_id = JStr [],
                   data_session_id = []\<rparr>\<rparr>] \<and>
   requests (wx (step (Complete Timeout) (sendMsg (onInput pearl_question fresh_app)))) =
     requests (wx (sendMsg (onInput pearl_question fresh_app)))"
proof -
  let ?a = "onInput pearl_question fresh_app"
  have h: "trim (input (data ?a)) \<noteq> []"
    by (simp add: eval_defs trim_def is_ws_def pearl_question_def)
  show ?thesis
    using h sendMsg_issues_one_request [OF h, of Timeout "sendMsg ?a" "[]"]
    by (simp add: eval_defs)
qed

section \<open>The transcript only grows\<close>

text \<open>
  C9. Every event of the page leaves \<open>messages\<close> as it was or appends exactly one
  message at its end; so over any run the earlier transcript is a prefix of the later
  one: no message is changed, removed or moved.
\<close>

theorem messages_append_only:
  "(messages (data (step ev a)) = messages (data a) \<or>
    (\<exists>m. messages (data (step ev a)) = messages (data a) @ [m]))
   \<and> prefix (messages (data a)) (messages (data (run evs a)))"
  using step_messages [of ev a] run_prefix [of a evs] by blast

theorem messages_append_only_witness:
  "messages (data (run [OnInput pearl_question, SendMsg, Complete NetworkError] fresh_app)) =
     [\<lparr>role = js ''user'', content = JStr pearl_question\<rparr>,
      \<lparr>role = js ''assistant'', content = JStr failure_text\<rparr>]
   \<and> prefix (messages (data (run [OnInput pearl_question, SendMsg] fresh_app)))
       (messages (data (run ([OnInput pearl_question, SendMsg] @ [Complete NetworkError]) fresh_app)))"
proof -
  have h: "trim pearl_question \<noteq> []"
    by (simp add: trim_def is_ws_def pearl_question_def)
  have "messages (data (run [OnInput pearl_question, SendMsg, Complete NetworkError] fresh_app)) =
     [\<lparr>role = js ''user'', content = JStr pearl_question\<rparr>,
      \<lparr>role = js ''assistant'', content = JStr failure_text\<rparr>]"
    using h by (simp add: run_def sendMsg_nonblank fail_def eval_defs)
  moreover have "prefix (messages (data (run [OnInput pearl_question, SendMsg] fresh_app)))
       (messages (data (run ([OnInput pearl_question, SendMsg] @ [Complete NetworkError]) fresh_app)))"
    using messages_append_only [of _ "run [OnInput pearl_question, SendMsg] fresh_app" "[Complete NetworkError]"]
    by (simp only: run_append)
  ultimately show ?thesis
    by simp
qed

section \<open>The user id\<close>

lemma onLoad_stored:
  assumes "\<not> get_fails (wx a)" and "storage (wx a) (js ''user_id'') = Some v" and "truthy v"
  shows "onLoad rnd uuid a = Inr (a\<lparr>data := (data a)\<lparr>user_id := v, session_id := uuid\<rparr>\<rparr>)"
  using assms by (simp add: onLoad_def getStorageSync_def)

lemma onLoad_generated:
  assumes "\<not> get_fails (wx a)" and "\<not> set_fails (wx a)"
    and "getStorageSync (wx a) (js ''user_id'') = Inr v" and "\<not> truthy v"
  shows "onLoad rnd uuid a =
           Inr (a\<lparr>wx := (wx a)\<lparr>storage := (storage (wx a))(js ''user_id'' \<mapsto> JStr (js ''user_'' @ rnd)),
                              writes := writes (wx a) @ [(js ''user_id'', JStr (js ''user_'' @ rnd))]\<rparr>,
                  data := (data a)\<lparr>user_id := JStr (js ''user_'' @ rnd), session_id := uuid\<rparr>\<rparr>)"
  using assms by (simp add: onLoad_def setStorageSync_def Let_def)

lemma generated_truthy: "truthy (JStr (js ''user_'' @ rnd))"
  by (simp add: js_def)

lemma onLoad_wx:
  assumes "onLoad rnd uuid a = Inr a'"
  shows "wx a' = wx a \<or>
         (\<not> (\<exists>v. storage (wx a) (js ''user_id'') = Some v \<and> truthy v) \<and>
          (\<exists>v. truthy v \<and> storage (wx a') (js ''user_id'') = Some v \<and>
               writes (wx a') = writes (wx a) @ [(js ''user_id'', v)]))"
proof (cases "get_fails (wx a)")
  case True
  with assms show ?thesis
    by (simp add: onLoad_def getStorageSync_def)
next
  case False
  then obtain v where v: "getStorageSync (wx a) (js ''user_id'') = Inr v"
    by (simp add: getStorageSync_def)
  show ?thesis
  proof (cases "truthy v")
    case True
    with assms v show ?thesis
      by (auto simp: onLoad_def)
  next
    case nt: False
    show ?thesis
    proof (cases "set_fails (wx a)")
      case True
      with assms v nt show ?thesis
        by (simp add: onLoad_def setStorageSync_def Let_def)
    next
      case sf: False
      have no: "\<not> (\<exists>v. storage (wx a) (js ''user_id'') = Some v \<and> truthy v)"
        using v nt False by (auto simp: getStorageSync_def)
      have "a' = a\<lparr>wx := (wx a)\<lparr>storage := (storage (wx a))(js ''user_id'' \<mapsto> JStr (js ''user_'' @ rnd)),
                              writes := writes (wx a) @ [(js ''user_id'', JStr (js ''user_'' @ rnd))]\<rparr>,
                  data := (data a)\<lparr>user_id := JStr (js ''user_'' @ rnd), session_id := uuid\<rparr>\<rparr>"
        using assms onLoad_generated [OF False sf v nt, of rnd uuid] by simp
      then have "truthy (JStr (js ''user_'' @ rnd)) \<and>
                 storage (wx a') (js ''user_id'') = Some (JStr (js ''user_'' @ rnd)) \<and>
                 writes (wx a') = writes (wx a) @ [(js ''user_id'', JStr (js ''user_'' @ rnd))]"
        using generated_truthy [of rnd] by simp
      with no show ?thesis
        by blast
    qed
  qed
qed

lemma step_storage:
  "(storage (wx (step ev a)) = storage (wx a) \<and> writes (wx (step ev a)) = writes (wx a)) \<or>
   (\<not> (\<exists>v. storage (wx a) (js ''user_id'') = Some v \<and> truthy v) \<and>
    (\<exists>v. truthy v \<and> storage (wx (step ev a)) (js ''user_id'') = Some v \<and>
         writes (wx (step ev a)) = writes (wx a) @ [(js ''user_id'', v)]))"
proof (cases ev)
  case (OnLoad rnd uuid)
  show ?thesis
  proof (cases "onLoad rnd uuid a")
    case (Inl e)
    with OnLoad show ?thesis by simp
  next
    case (Inr a')
    with OnLoad onLoad_wx [OF Inr] show ?thesis
      by auto
  qed
next
  case (OnInput v)
  then show ?thesis
    by (simp add: onInput_def)
next
  case SendMsg
  then show ?thesis
    by (cases "trim (input (data a)) = []")
       (simp_all add: sendMsg_blank sendMsg_nonblank wx_request_def)
next
  case (Complete oc)
  then show ?thesis
    by (cases oc) (auto simp: fail_wx split: sum.splits dest: success_wx)
qed

lemma run_stored:
  assumes "storage (wx a) (js ''user_id'') = Some v" and "truthy v"
  shows "storage (wx (run evs a)) = storage (wx a) \<and> writes (wx (run evs a)) = writes (wx a)"
  using assms
proof (induction evs arbitrary: a)
  case Nil
  then show ?case by (simp add: run_def)
next
  case (Cons ev evs)
  from Cons.prems step_storage [of ev a]
  have same: "storage (wx (step ev a)) = storage (wx a) \<and> writes (wx (step ev a)) = writes (wx a)"
    by blast
  with Cons.prems have "storage (wx (step ev a)) (js ''user_id'') = Some v"
    by simp
  from Cons.IH [OF this Cons.prems(2)] same show ?case
    by (simp add: run_Cons del: step.simps)
qed

lemma run_writes: "length (writes (wx (run evs a))) \<le> length (writes (wx a)) + 1"
proof (induction evs arbitrary: a)
  case Nil
  then show ?case by (simp add: run_def)
next
  case (Cons ev evs)
  from step_storage [of ev a] consider
    (same) "writes (wx (step ev a)) = writes (wx a)"
  | (wrote) v where "truthy v" "storage (wx (step ev a)) (js ''user_id'') = Some v"
      "writes (wx (step ev a)) = writes (wx a) @ [(js ''user_id'', v)]"
    by blast
  then show ?case
  proof cases
    case same
    with Cons.IH [of "step ev a"] show ?thesis
      by (simp add: run_Cons del: step.simps)
  next
    case wrote
    from run_stored [OF wrote(2) wrote(1), of evs] wrote(3) show ?thesis
      by (simp add: run_Cons del: step.simps)
  qed
qed

lemma onLoad_first:
  assumes "\<not> get_fails (wx a)" and "\<not> set_fails (wx a)"
  shows "\<exists>a1 u. onLoad rnd uuid a = Inr a1 \<and> \<not> get_fails (wx a1)
           \<and> truthy u \<and> storage (wx a1) (js ''user_id'') = Some u \<and> user_id (data a1) = u
           \<and> (\<forall>v. storage (wx a) (js ''user_id'') = Some v \<and> truthy v \<longrightarrow>
                   user_id (data a1) = v \<and> wx a1 = wx a)
           \<and> (storage (wx a) (js ''user_id'') = None \<longrightarrow>
                   user_id (data a1) = JStr (js ''user_'' @ rnd) \<and>
                   writes (wx a1) = writes (wx a) @ [(js ''user_id'', JStr (js ''user_'' @ rnd))])"
proof -
  obtain s where s: "getStorageSync (wx a) (js ''user_id'') = Inr s"
    using assms(1) by (simp add: getStorageSync_def)
  show ?thesis
  proof (cases "truthy s")
    case True
    then have st: "storage (wx a) (js ''user_id'') = Some s"
      using s assms(1) by (auto simp: getStorageSync_def split: option.splits if_splits)
    have "onLoad rnd uuid a = Inr (a\<lparr>data := (data a)\<lparr>user_id := s, session_id := uuid\<rparr>\<rparr>)"
      by (rule onLoad_stored [OF assms(1) st True])
    then show ?thesis
      using assms(1) st True by simp
  next
    case False
    have no: "\<not> (\<exists>v. storage (wx a) (js ''user_id'') = Some v \<and> truthy v)"
      using s False assms(1) by (auto simp: getStorageSync_def)
    show ?thesis
      using onLoad_generated [OF assms s False, of rnd uuid] no assms(1)
        generated_truthy [of rnd]
      by auto
  qed
qed

lemma onLoad_again:
  assumes "\<not> get_fails (wx a)" and "storage (wx a) (js ''user_id'') = Some u" and "truthy u"
  shows "\<exists>a2. onLoad rnd uuid a = Inr a2 \<and> user_id (data a2) = u \<and> wx a2 = wx a"
  using onLoad_stored [OF assms, of rnd uuid] by simp

text \<open>
  C6. With working storage, two loads in a row, whatever the random values drawn, end with
  the same user id, and the second load writes nothing. When a (truthy) user id is already
  stored, the load returns it and leaves the storage and its write log untouched; when the
  key is absent, the first load writes the generated id once. Over any run of the page the
  storage is written at most once.
\<close>

theorem resolveUserId_idempotent:
  assumes "\<not> get_fails (wx a)" and "\<not> set_fails (wx a)"
  shows "\<exists>a1 a2. onLoad rnd1 uuid1 a = Inr a1 \<and> onLoad rnd2 uuid2 a1 = Inr a2
           \<and> user_id (data a2) = user_id (data a1) \<and> wx a2 = wx a1
           \<and> (\<forall>v. storage (wx a) (js ''user_id'') = Some v \<and> truthy v \<longrightarrow>
                   user_id (data a1) = v \<and> wx a1 = wx a)
           \<and> (storage (wx a) (js ''user_id'') = None \<longrightarrow>
                   user_id (data a1) = JStr (js ''user_'' @ rnd1) \<and>
                   writes (wx a1) = writes (wx a) @ [(js ''user_id'', JStr (js ''user_'' @ rnd1))])
           \<and> length (writes (wx (run evs a))) \<le> length (writes (wx a)) + 1"
proof -
  from onLoad_first [OF assms, of rnd1 uuid1]
  obtain a1 u where 1: "onLoad rnd1 uuid1 a = Inr a1"
    and g: "\<not> get_fails (wx a1)"
    and u: "truthy u" "storage (wx a1) (js ''user_id'') = Some u" "user_id (data a1) = u"
    and present: "\<forall>v. storage (wx a) (js ''user_id'') = Some v \<and> truthy v \<longrightarrow>
                   user_id (data a1) = v \<and> wx a1 = wx a"
    and absent: "storage (wx a) (js ''user_id'') = None \<longrightarrow>
                   user_id (data a1) = JStr (js ''user_'' @ rnd1) \<and>
                   writes (wx a1) = writes (wx a) @ [(js ''user_id'', JStr (js ''user_'' @ rnd1))]"
    by (elim exE conjE) (rule that, assumption+)
  from onLoad_again [OF g u(2) u(1), of rnd2 uuid2]
  obtain a2 where 2: "onLoad rnd2 uuid2 a1 = Inr a2" "user_id (data a2) = u" "wx a2 = wx a1"
    by (elim exE conjE) (rule that, assumption+)
  show ?thesis
  proof (intro exI conjI)
    show "onLoad rnd1 uuid1 a = Inr a1"
      by (rule 1)
    show "onLoad rnd2 uuid2 a1 = Inr a2"
      by (rule 2(1))
    show "user_id (data a2) = user_id (data a1)"
      using 2(2) u(3) by simp
    show "wx a2 = wx a1"
      by (rule 2(3))
    show "\<forall>v. storage (wx a) (js ''user_id'') = Some v \<and> truthy v \<longrightarrow>
                   user_id (data a1) = v \<and> wx a1 = wx a"
      by (rule present)
    show "storage (wx a) (js ''user_id'') = None \<longrightarrow>
                   user_id (data a1) = JStr (js ''user_'' @ rnd1) \<and>
                   writes (wx a1) = writes (wx a) @ [(js ''user_id'', JStr (js ''user_'' @ rnd1))]"
      by (rule absent)
    show "length (writes (wx (run evs a))) \<le> length (writes (wx a)) + 1"
      by (rule run_writes)
  qed
qed

theorem resolveUserId_idempotent_witness:
  "\<not> get_fails (wx fresh_app) \<and> \<not> set_fails (wx fresh_app)
   \<and> user_id (data (run [OnLoad (js ''k3x9'') (js ''s1''), OnLoad (js ''q7'') (js ''s2'')] fresh_app)) =
     JStr (js ''user_k3x9'')
   \<and> user_id (data (run [OnLoad (js ''k3x9'') (js ''s1'')] fresh_app)) = JStr (js ''user_k3x9'')
   \<and> writes (wx (run [OnLoad (js ''k3x9'') (js ''s1''), OnLoad (js ''q7'') (js ''s2'')] fresh_app)) =
     [(js ''user_id'', JStr (js ''user_k3x9''))]"
proof -
  have g: "\<not> get_fails (wx fresh_app)" and w: "\<not> set_fails (wx fresh_app)"
    by (simp_all add: fresh_app_def)
  have e: "storage (wx fresh_app) (js ''user_id'') = None"
    by (simp add: fresh_app_def)
  from resolveUserId_idempotent [OF g w, of "js ''k3x9''" "js ''s1''" "js ''q7''" "js ''s2''" "[]"] e
  obtain a1 a2 where
    "onLoad (js ''k3x9'') (js ''s1'') fresh_app = Inr a1" "onLoad (js ''q7'') (js ''s2'') a1 = Inr a2"
    "user_id (data a2) = user_id (data a1)" "wx a2 = wx a1"
    "user_id (data a1) = JStr (js ''user_'' @ js ''k3x9'')"
    "writes (wx a1) = writes (wx fresh_app) @ [(js ''user_id'', JStr (js ''user_'' @ js ''k3x9''))]"
    by auto
  with g w show ?thesis
    by (simp add: run_def fresh_app_def js_def)
qed

text \<open>
  C7, as the page has it. When the read of the stored user id fails, or when no id is
  stored and the write of the generated one fails, the error propagates out of
  \<^verbatim>\<open>onLoad\<close>: nothing catches it, \<^verbatim>\<open>setData\<close> is never reached, and the page's data
  and the storage are as they were. No identifier is kept in memory.
\<close>

theorem onLoad_storage_failure_propagates:
  assumes "get_fails (wx a) \<or>
           (getStorageSync (wx a) (js ''user_id'') = Inr v \<and> \<not> truthy v \<and> set_fails (wx a))"
  shows "onLoad rnd uuid a = Inl StorageError \<and> step (OnLoad rnd uuid) a = a"
  using assms by (auto simp: onLoad_def getStorageSync_def setStorageSync_def Let_def split: if_splits)

theorem onLoad_storage_failure_propagates_witness:
  "set_fails (wx broken_write_app) \<and>
   onLoad (js ''k3x9'') (js ''s1'') broken_write_app = Inl StorageError \<and>
   step (OnLoad (js ''k3x9'') (js ''s1'')) broken_write_app = broken_write_app"
proof -
  have h: "getStorageSync (wx broken_write_app) (js ''user_id'') = Inr (JStr []) \<and>
           \<not> truthy (JStr []) \<and> set_fails (wx broken_write_app)"
    by (simp add: broken_write_app_def fresh_app_def getStorageSync_def)
  then show ?thesis
    using onLoad_storage_failure_propagates [OF disjI2, OF h, of "js ''k3x9''" "js ''s1''"]
    by simp
qed

text \<open>
  Against C7 as it is stated: on a device whose storage cannot be read, and on one whose
  storage cannot be written, the first load throws and the user id of the page stays the
  empty string.
\<close>

theorem storage_failure_counterexample:
  "onLoad (js ''k3x9'') (js ''s1'') broken_read_app = Inl StorageError
   \<and> user_id (data (step (OnLoad (js ''k3x9'') (js ''s1'')) broken_read_app)) = JStr []
   \<and> onLoad (js ''k3x9'') (js ''s1'') broken_write_app = Inl StorageError
   \<and> user_id (data (step (OnLoad (js ''k3x9'') (js ''s1'')) broken_write_app)) = JStr []"
  by (simp add: broken_read_app_def broken_write_app_def fresh_app_def init_data_def onLoad_def
      getStorageSync_def setStorageSync_def)

end
